theory Spec2Isabelle
  imports Complex_Main "HOL-Library.AList"
begin

section \<open>Trading signals of fraclib: the record, its validation and its dictionary codec\<close>

text \<open>
  The development embeds \<^verbatim>\<open>src/fraclib/types/signals.py\<close>: the four enumerations, the
  dataclass \<^verbatim>\<open>TradingSignal\<close> with its \<^verbatim>\<open>__post_init__\<close> validation, and the two
  conversions \<^verbatim>\<open>to_dict\<close> and \<^verbatim>\<open>from_dict\<close>.

  Python values are dynamically typed, and neither the dataclass nor \<^verbatim>\<open>from_dict\<close> checks
  the annotated field types, so every field of the record and every entry of a dictionary
  holds a value of one type \<open>pyval\<close>. The library types the module relies on
  (\<^verbatim>\<open>decimal.Decimal\<close>, \<^verbatim>\<open>datetime.datetime\<close>, \<^verbatim>\<open>enum.Enum\<close>) are modelled next,
  as far as the module uses them. Floats, lists and nested dictionaries are left out of
  \<open>pyval\<close>; strings are byte strings.

  The class statement itself is part of the model. The field \<^verbatim>\<open>message\<close> has no default
  and is declared after fields that have one, and the \<^verbatim>\<open>dataclass\<close> decorator rejects
  such a class with a \<^verbatim>\<open>TypeError\<close> while the module is loaded. Construction and
  \<^verbatim>\<open>from_dict\<close> need the class, so they begin with the outcome of the class statement.
  \<^verbatim>\<open>to_dict\<close> is a function of a record that is given.
\<close>

subsection \<open>Enumerations\<close>

datatype TradeType = PERP | SPOT | EVM
datatype SignalType = TRADE
datatype Side = BUY | SELL
datatype OrderType = MARKET | LIMIT | STOP_LOSS | TAKE_PROFIT

text \<open>The \<^verbatim>\<open>.value\<close> of a member.\<close>

fun TradeType_value :: "TradeType \<Rightarrow> string" where
  "TradeType_value PERP = ''PERP''"
| "TradeType_value SPOT = ''SPOT''"
| "TradeType_value EVM = ''EVM''"

fun SignalType_value :: "SignalType \<Rightarrow> string" where
  "SignalType_value TRADE = ''TRADE''"

fun Side_value :: "Side \<Rightarrow> string" where
  "Side_value BUY = ''BUY''"
| "Side_value SELL = ''SELL''"

fun OrderType_value :: "OrderType \<Rightarrow> string" where
  "OrderType_value MARKET = ''MARKET''"
| "OrderType_value LIMIT = ''LIMIT''"
| "OrderType_value STOP_LOSS = ''STOP_LOSS''"
| "OrderType_value TAKE_PROFIT = ''TAKE_PROFIT''"

text \<open>The lookup \<^verbatim>\<open>EnumClass[name]\<close> by member name; \<open>None\<close> stands for the \<^verbatim>\<open>KeyError\<close>.\<close>

definition TradeType_getitem :: "string \<Rightarrow> TradeType option" where
  "TradeType_getitem n =
     (if n = ''PERP'' then Some PERP else if n = ''SPOT'' then Some SPOT
      else if n = ''EVM'' then Some EVM else None)"

definition SignalType_getitem :: "string \<Rightarrow> SignalType option" where
  "SignalType_getitem n = (if n = ''TRADE'' then Some TRADE else None)"

definition Side_getitem :: "string \<Rightarrow> Side option" where
  "Side_getitem n = (if n = ''BUY'' then Some BUY else if n = ''SELL'' then Some SELL else None)"

definition OrderType_getitem :: "string \<Rightarrow> OrderType option" where
  "OrderType_getitem n =
     (if n = ''MARKET'' then Some MARKET else if n = ''LIMIT'' then Some LIMIT
      else if n = ''STOP_LOSS'' then Some STOP_LOSS
      else if n = ''TAKE_PROFIT'' then Some TAKE_PROFIT else None)"

subsection \<open>Decimal digits and integers as text\<close>

definition is_digit :: "char \<Rightarrow> bool" where
  "is_digit c = (c \<in> set ''0123456789'')"

definition digit_char :: "nat \<Rightarrow> char" where
  "digit_char n = ''0123456789'' ! n"

definition digit_val :: "char \<Rightarrow> nat" where
  "digit_val c = length (takeWhile (\<lambda>d. d \<noteq> c) ''0123456789'')"

text \<open>\<^verbatim>\<open>str(n)\<close> for a natural number, and \<^verbatim>\<open>int(ds)\<close> for a string of digits.\<close>

fun str_nat :: "nat \<Rightarrow> string" where
  "str_nat n = (if n < 10 then [digit_char n] else str_nat (n div 10) @ [digit_char (n mod 10)])"

declare str_nat.simps [simp del]

definition int_of_digits :: "string \<Rightarrow> nat" where
  "int_of_digits ds = foldl (\<lambda>a c. 10 * a + digit_val c) 0 ds"

definition str_int :: "int \<Rightarrow> string" where
  "str_int i = (if i < 0 then CHR ''-'' # str_nat (nat (- i)) else str_nat (nat i))"

text \<open>The format \<^verbatim>\<open>%+d\<close> and zero padding to a width, as in \<^verbatim>\<open>%02d\<close>.\<close>

definition str_int_signed :: "int \<Rightarrow> string" where
  "str_int_signed i = (if i < 0 then CHR ''-'' # str_nat (nat (- i)) else CHR ''+'' # str_nat (nat i))"

definition zpad :: "nat \<Rightarrow> nat \<Rightarrow> string" where
  "zpad w n = replicate (w - length (str_nat n)) (CHR ''0'') @ str_nat n"

subsection \<open>\<^verbatim>\<open>decimal.Decimal\<close>\<close>

text \<open>
  A decimal is a sign (\<open>True\<close> for negative), a coefficient and an exponent, or an
  infinity, or a quiet or signalling NaN with a payload (\<open>0\<close> for no payload). The model
  follows the default context. The constructor from text is the exact one of the C
  implementation on a 64-bit build: it raises when the number needs more than
  \<open>MAX_PREC\<close> digits, when its adjusted exponent exceeds \<open>MAX_EMAX\<close> or when its exponent
  is below \<open>MIN_ETINY\<close>.
\<close>

datatype Decimal =
    Finite bool nat int
  | Infinity bool
  | NaN bool bool nat

text \<open>\<^verbatim>\<open>Decimal.__str__\<close>: scientific notation when the exponent is positive or the number
  has more than six leading zeros after the point.\<close>

definition sign_str :: "bool \<Rightarrow> string" where
  "sign_str neg = (if neg then ''-'' else '''')"

fun Decimal_str :: "Decimal \<Rightarrow> string" where
  "Decimal_str (Infinity neg) = sign_str neg @ ''Infinity''"
| "Decimal_str (NaN neg signalling p) =
     sign_str neg @ (if signalling then ''sNaN'' else ''NaN'') @ (if p = 0 then '''' else str_nat p)"
| "Decimal_str (Finite neg c e) =
     (let ds = str_nat c;
          leftdigits = e + int (length ds);
          dotplace = (if e \<le> 0 \<and> leftdigits > - 6 then leftdigits else 1);
          intpart = (if dotplace \<le> 0 then ''0''
                     else if dotplace \<ge> int (length ds)
                       then ds @ replicate (nat (dotplace - int (length ds))) (CHR ''0'')
                     else take (nat dotplace) ds);
          fracpart = (if dotplace \<le> 0 then ''.'' @ replicate (nat (- dotplace)) (CHR ''0'') @ ds
                      else if dotplace \<ge> int (length ds) then ''''
                      else ''.'' @ drop (nat dotplace) ds);
          exp = (if leftdigits = dotplace then ''''
                 else ''E'' @ str_int_signed (leftdigits - dotplace))
      in sign_str neg @ intpart @ fracpart @ exp)"

text \<open>\<^verbatim>\<open>Decimal(text)\<close>: surrounding whitespace is stripped, underscores are removed, then the
  text must be an optional sign followed by a number with an optional fraction and an
  optional exponent, or an infinity, or a NaN; letters match in either case. \<open>None\<close> stands
  for \<^verbatim>\<open>decimal.InvalidOperation\<close>.\<close>

definition is_space :: "char \<Rightarrow> bool" where
  "is_space c = (c \<in> set [CHR '' '', CHR 0x09, CHR 0x0A, CHR 0x0B, CHR 0x0C, CHR 0x0D,
                           CHR 0x1C, CHR 0x1D, CHR 0x1E, CHR 0x1F, CHR 0x85, CHR 0xA0])"

definition strip :: "string \<Rightarrow> string" where
  "strip s = rev (dropWhile is_space (rev (dropWhile is_space s)))"

definition lower :: "char \<Rightarrow> char" where
  "lower c = (case map_of (zip ''ABCDEFGHIJKLMNOPQRSTUVWXYZ'' ''abcdefghijklmnopqrstuvwxyz'') c of
                None \<Rightarrow> c | Some l \<Rightarrow> l)"

definition split_sign :: "string \<Rightarrow> bool \<times> string" where
  "split_sign s = (case s of
       [] \<Rightarrow> (False, [])
     | c # r \<Rightarrow> if c = CHR ''-'' then (True, r) else if c = CHR ''+'' then (False, r) else (False, s))"

text \<open>The exponent part: empty, or \<^verbatim>\<open>E\<close>, an optional sign and at least one digit.\<close>

definition parse_exp :: "string \<Rightarrow> int option" where
  "parse_exp s = (case s of
       [] \<Rightarrow> Some 0
     | c # r \<Rightarrow>
         if lower c \<noteq> CHR ''e'' then None
         else let (neg, ds) = split_sign r
              in if ds \<noteq> [] \<and> list_all is_digit ds
                 then Some (if neg then - int (int_of_digits ds) else int (int_of_digits ds))
                 else None)"

definition MAX_PREC :: int where
  "MAX_PREC = 999999999999999999"

definition MAX_EMAX :: int where
  "MAX_EMAX = 999999999999999999"

definition MIN_ETINY :: int where
  "MIN_ETINY = - 1999999999999999997"

text \<open>A zero outside the exponent range would be clamped, any other number rounded or
  overflowed; the exact constructor refuses both.\<close>

definition within_limits :: "nat \<Rightarrow> int \<Rightarrow> bool" where
  "within_limits c e =
     (let n = int (length (str_nat c))
      in n \<le> MAX_PREC \<and> MIN_ETINY \<le> e \<and> (if c = 0 then e \<le> MAX_EMAX else e + n - 1 \<le> MAX_EMAX))"

definition parse_number :: "bool \<Rightarrow> string \<Rightarrow> Decimal option" where
  "parse_number neg s =
     (let intpart = takeWhile is_digit s;
          r1 = dropWhile is_digit s;
          has_point = (r1 \<noteq> [] \<and> hd r1 = CHR ''.'');
          fracpart = (if has_point then takeWhile is_digit (tl r1) else []);
          r2 = (if has_point then dropWhile is_digit (tl r1) else r1)
      in if intpart = [] \<and> fracpart = [] then None
         else case parse_exp r2 of
                None \<Rightarrow> None
              | Some e \<Rightarrow>
                  let c = int_of_digits (intpart @ fracpart); x = e - int (length fracpart)
                  in if within_limits c x then Some (Finite neg c x) else None)"

definition parse_nan :: "bool \<Rightarrow> string \<Rightarrow> Decimal option" where
  "parse_nan neg s =
     (if take 3 s = ''nan'' \<and> list_all is_digit (drop 3 s)
        then Some (NaN neg False (int_of_digits (drop 3 s)))
      else if take 4 s = ''snan'' \<and> list_all is_digit (drop 4 s)
        then Some (NaN neg True (int_of_digits (drop 4 s)))
      else None)"

definition Decimal_of_str :: "string \<Rightarrow> Decimal option" where
  "Decimal_of_str text =
     (let (neg, s) = split_sign (filter (\<lambda>c. c \<noteq> CHR ''_'') (strip text));
          l = map lower s
      in if l = ''inf'' \<or> l = ''infinity'' then Some (Infinity neg)
         else if take 3 l = ''nan'' \<or> take 4 l = ''snan'' then parse_nan neg l
         else parse_number neg s)"

text \<open>Ordering against an integer, as \<^verbatim>\<open>0 < d\<close> and \<^verbatim>\<open>d <= 100\<close> need it. A NaN has no
  order: the comparison raises \<^verbatim>\<open>InvalidOperation\<close>, here \<open>None\<close>.\<close>

datatype cmp = LT | EQ | GT

definition cmp_int :: "int \<Rightarrow> int \<Rightarrow> cmp" where
  "cmp_int a b = (if a < b then LT else if a = b then EQ else GT)"

fun Decimal_cmp_int :: "Decimal \<Rightarrow> int \<Rightarrow> cmp option" where
  "Decimal_cmp_int (NaN neg signalling p) i = None"
| "Decimal_cmp_int (Infinity neg) i = Some (if neg then LT else GT)"
| "Decimal_cmp_int (Finite neg c e) i =
     (let sc = (if neg then - int c else int c)
      in Some (if e \<ge> 0 then cmp_int (sc * 10 ^ nat e) i else cmp_int sc (i * 10 ^ nat (- e))))"

text \<open>\<^verbatim>\<open>Decimal.__bool__\<close>: only a finite zero is false.\<close>

fun Decimal_bool :: "Decimal \<Rightarrow> bool" where
  "Decimal_bool (Finite neg c e) = (c \<noteq> 0)"
| "Decimal_bool d = True"

subsection \<open>\<^verbatim>\<open>datetime.datetime\<close>\<close>

text \<open>A point in time with an optional fixed offset from UTC in seconds (\<open>None\<close> for a
  naive value). Only \<^verbatim>\<open>isoformat\<close> is needed.\<close>

record datetime =
  year :: nat
  month :: nat
  day :: nat
  hour :: nat
  minute :: nat
  second :: nat
  microsecond :: nat
  utcoffset :: "int option"

definition format_offset :: "int \<Rightarrow> string" where
  "format_offset off =
     (let a = nat \<bar>off\<bar>
      in (if off < 0 then ''-'' else ''+'') @ zpad 2 (a div 3600) @ '':'' @ zpad 2 (a mod 3600 div 60)
         @ (if a mod 60 \<noteq> 0 then '':'' @ zpad 2 (a mod 60) else []))"

definition isoformat_sep :: "char \<Rightarrow> datetime \<Rightarrow> string" where
  "isoformat_sep sep dt =
     zpad 4 (year dt) @ ''-'' @ zpad 2 (month dt) @ ''-'' @ zpad 2 (day dt) @ [sep]
     @ zpad 2 (hour dt) @ '':'' @ zpad 2 (minute dt) @ '':'' @ zpad 2 (second dt)
     @ (if microsecond dt \<noteq> 0 then ''.'' @ zpad 6 (microsecond dt) else [])
     @ (case utcoffset dt of None \<Rightarrow> [] | Some off \<Rightarrow> format_offset off)"

definition isoformat :: "datetime \<Rightarrow> string" where
  "isoformat dt = isoformat_sep (CHR ''T'') dt"

subsection \<open>Python values, dictionaries and exceptions\<close>

datatype pyval =
    VNone
  | VBool bool
  | VInt int
  | VStr string
  | VDecimal Decimal
  | VDatetime datetime
  | VSignalType SignalType
  | VTradeType TradeType
  | VSide Side
  | VOrderType OrderType

text \<open>A dictionary with string keys, in insertion order. Assigning to a key that is present
  replaces its value in place (\<open>AList.update\<close>).\<close>

type_synonym pydict = "(string \<times> pyval) list"

text \<open>The exceptions the module can raise. \<^verbatim>\<open>ValueError\<close> carries its message,
  \<^verbatim>\<open>KeyError\<close> the key that was looked up.\<close>

datatype error =
    ValueError string
  | KeyError pyval
  | TypeError
  | InvalidOperation

text \<open>\<^verbatim>\<open>str(v)\<close>.\<close>

fun py_str :: "pyval \<Rightarrow> string" where
  "py_str VNone = ''None''"
| "py_str (VBool b) = (if b then ''True'' else ''False'')"
| "py_str (VInt i) = str_int i"
| "py_str (VStr s) = s"
| "py_str (VDecimal d) = Decimal_str d"
| "py_str (VDatetime dt) = isoformat_sep (CHR '' '') dt"
| "py_str (VSignalType x) = ''SignalType.'' @ SignalType_value x"
| "py_str (VTradeType x) = ''TradeType.'' @ TradeType_value x"
| "py_str (VSide x) = ''Side.'' @ Side_value x"
| "py_str (VOrderType x) = ''OrderType.'' @ OrderType_value x"

text \<open>Truth value of a value, as \<^verbatim>\<open>not v\<close> tests it.\<close>

fun truthy :: "pyval \<Rightarrow> bool" where
  "truthy VNone = False"
| "truthy (VBool b) = b"
| "truthy (VInt i) = (i \<noteq> 0)"
| "truthy (VStr s) = (s \<noteq> [])"
| "truthy (VDecimal d) = Decimal_bool d"
| "truthy v = True"

text \<open>Ordering of a value against an integer literal: integers and booleans compare as
  integers, decimals by value, a NaN raises \<^verbatim>\<open>InvalidOperation\<close>, every other type raises
  \<^verbatim>\<open>TypeError\<close>.\<close>

fun py_cmp_int :: "pyval \<Rightarrow> int \<Rightarrow> error + cmp" where
  "py_cmp_int (VInt n) i = Inr (cmp_int n i)"
| "py_cmp_int (VBool b) i = Inr (cmp_int (if b then 1 else 0) i)"
| "py_cmp_int (VDecimal d) i =
     (case Decimal_cmp_int d i of None \<Rightarrow> Inl InvalidOperation | Some c \<Rightarrow> Inr c)"
| "py_cmp_int v i = Inl TypeError"

subsection \<open>The dataclass \<^verbatim>\<open>TradingSignal\<close>\<close>

record TradingSignal =
  signal_id :: pyval
  timestamp :: pyval
  type :: pyval
  trade_type :: pyval
  symbol :: pyval
  side :: pyval
  order_type :: pyval
  amount_capital_percent :: pyval
  fixed_size :: pyval
  leverage :: pyval
  limit_price :: pyval
  stop_price :: pyval
  take_profit_price :: pyval
  slippage :: pyval
  network :: pyval
  contract_address :: pyval
  dex_id :: pyval
  reduce_only :: pyval
  message :: pyval
  source :: pyval
  strategy_name :: pyval
  timeframe :: pyval
  exchange :: pyval

text \<open>The chained comparison \<^verbatim>\<open>0 < v <= 100\<close>: the second comparison is evaluated only when
  the first holds.\<close>

definition percent_in_range :: "pyval \<Rightarrow> error + bool" where
  "percent_in_range v =
     (case py_cmp_int v 0 of
        Inl e \<Rightarrow> Inl e
      | Inr c \<Rightarrow>
          if c \<noteq> GT then Inr False
          else (case py_cmp_int v 100 of Inl e \<Rightarrow> Inl e | Inr c' \<Rightarrow> Inr (c' \<noteq> GT)))"

text \<open>\<^verbatim>\<open>__post_init__\<close>: the five checks in the order of the source, the first violated one
  raises.\<close>

definition post_init :: "TradingSignal \<Rightarrow> error + unit" where
  "post_init s =
     (case percent_in_range (amount_capital_percent s) of
        Inl e \<Rightarrow> Inl e
      | Inr ok \<Rightarrow>
          if \<not> ok then Inl (ValueError ''amount_capital_percent must be between 0 and 100'')
          else if trade_type s = VTradeType EVM \<and> \<not> truthy (contract_address s)
            then Inl (ValueError ''contract_address is required for EVM trades'')
          else if order_type s \<in> set [VOrderType LIMIT] \<and> limit_price s = VNone
            then Inl (ValueError ''limit_price is required for LIMIT and POST_ONLY orders'')
          else if order_type s = VOrderType STOP_LOSS \<and> stop_price s = VNone
            then Inl (ValueError ''stop_price is required for STOP_LOSS orders'')
          else if order_type s = VOrderType TAKE_PROFIT \<and> take_profit_price s = VNone
            then Inl (ValueError ''take_profit_price is required for TAKE_PROFIT orders'')
          else Inr ())"

text \<open>The field declarations of the class body in their order, each with its default
  (\<open>None\<close> for a field declared without one).\<close>

definition field_decls :: "(string \<times> pyval option) list" where
  "field_decls =
     [(''signal_id'', None), (''timestamp'', None), (''type'', None), (''trade_type'', None),
      (''symbol'', None), (''side'', None), (''order_type'', None),
      (''amount_capital_percent'', None),
      (''fixed_size'', Some VNone), (''leverage'', Some VNone),
      (''limit_price'', Some VNone), (''stop_price'', Some VNone),
      (''take_profit_price'', Some VNone), (''slippage'', Some VNone),
      (''network'', Some VNone), (''contract_address'', Some VNone), (''dex_id'', Some VNone),
      (''reduce_only'', Some (VBool False)),
      (''message'', None),
      (''source'', Some VNone), (''strategy_name'', Some VNone), (''timeframe'', Some VNone),
      (''exchange'', Some VNone)]"

text \<open>The check the \<^verbatim>\<open>dataclass\<close> decorator makes while it generates \<^verbatim>\<open>__init__\<close>: going
  through the fields in order, a field without default after one with a default raises
  \<^verbatim>\<open>TypeError\<close> (non-default argument follows default argument).\<close>

fun init_fn_check :: "(string \<times> pyval option) list \<Rightarrow> bool \<Rightarrow> error + unit" where
  "init_fn_check [] seen_default = Inr ()"
| "init_fn_check ((name, dflt) # fs) seen_default =
     (case dflt of
        Some d \<Rightarrow> init_fn_check fs True
      | None \<Rightarrow> if seen_default then Inl TypeError else init_fn_check fs seen_default)"

text \<open>The class statement \<^verbatim>\<open>@dataclass class TradingSignal\<close>, run when the module is
  loaded. When it raises, the module does not load and the class does not exist.\<close>

definition class_statement :: "error + unit" where
  "class_statement = init_fn_check field_decls False"

text \<open>Direct construction \<^verbatim>\<open>TradingSignal(signal_id=..., ...)\<close>. The class must have been
  created; then the generated \<^verbatim>\<open>__init__\<close> stores the arguments, here collected in
  \<open>s\<close>, and calls \<^verbatim>\<open>__post_init__\<close>.\<close>

definition TradingSignal_new :: "TradingSignal \<Rightarrow> error + TradingSignal" where
  "TradingSignal_new s =
     (case class_statement of
        Inl e \<Rightarrow> Inl e
      | Inr c \<Rightarrow> (case post_init s of Inl e \<Rightarrow> Inl e | Inr u \<Rightarrow> Inr s))"

text \<open>The fields in declaration order (\<^verbatim>\<open>__dataclass_fields__\<close>) with their values
  (\<^verbatim>\<open>getattr\<close>).\<close>

definition field_names :: "string list" where
  "field_names =
     [''signal_id'', ''timestamp'', ''type'', ''trade_type'', ''symbol'', ''side'', ''order_type'',
      ''amount_capital_percent'', ''fixed_size'', ''leverage'', ''limit_price'', ''stop_price'',
      ''take_profit_price'', ''slippage'', ''network'', ''contract_address'', ''dex_id'',
      ''reduce_only'', ''message'', ''source'', ''strategy_name'', ''timeframe'', ''exchange'']"

definition fields :: "TradingSignal \<Rightarrow> pydict" where
  "fields s =
     [(''signal_id'', signal_id s), (''timestamp'', timestamp s), (''type'', type s),
      (''trade_type'', trade_type s), (''symbol'', symbol s), (''side'', side s),
      (''order_type'', order_type s), (''amount_capital_percent'', amount_capital_percent s),
      (''fixed_size'', fixed_size s), (''leverage'', leverage s), (''limit_price'', limit_price s),
      (''stop_price'', stop_price s), (''take_profit_price'', take_profit_price s),
      (''slippage'', slippage s), (''network'', network s),
      (''contract_address'', contract_address s), (''dex_id'', dex_id s),
      (''reduce_only'', reduce_only s), (''message'', message s), (''source'', source s),
      (''strategy_name'', strategy_name s), (''timeframe'', timeframe s),
      (''exchange'', exchange s)]"

text \<open>Construction from keyword arguments, \<^verbatim>\<open>cls(**data)\<close>, on the class when it
  exists: a keyword that is not a field and a missing argument without default raise
  \<^verbatim>\<open>TypeError\<close>; absent optional arguments take their defaults.\<close>

definition kwarg :: "pydict \<Rightarrow> string \<Rightarrow> pyval \<Rightarrow> pyval" where
  "kwarg kw k dflt = (case map_of kw k of None \<Rightarrow> dflt | Some v \<Rightarrow> v)"

definition required_fields :: "string list" where
  "required_fields =
     [''signal_id'', ''timestamp'', ''type'', ''trade_type'', ''symbol'', ''side'', ''order_type'',
      ''amount_capital_percent'', ''message'']"

definition TradingSignal_init :: "pydict \<Rightarrow> error + TradingSignal" where
  "TradingSignal_init kw =
     (case class_statement of
        Inl e \<Rightarrow> Inl e
      | Inr c \<Rightarrow>
      if \<not> list_all (\<lambda>k. k \<in> set field_names) (map fst kw) then Inl TypeError
      else if \<not> list_all (\<lambda>k. map_of kw k \<noteq> None) required_fields then Inl TypeError
      else TradingSignal_new
        \<lparr> signal_id = kwarg kw ''signal_id'' VNone,
          timestamp = kwarg kw ''timestamp'' VNone,
          type = kwarg kw ''type'' VNone,
          trade_type = kwarg kw ''trade_type'' VNone,
          symbol = kwarg kw ''symbol'' VNone,
          side = kwarg kw ''side'' VNone,
          order_type = kwarg kw ''order_type'' VNone,
          amount_capital_percent = kwarg kw ''amount_capital_percent'' VNone,
          fixed_size = kwarg kw ''fixed_size'' VNone,
          leverage = kwarg kw ''leverage'' VNone,
          limit_price = kwarg kw ''limit_price'' VNone,
          stop_price = kwarg kw ''stop_price'' VNone,
          take_profit_price = kwarg kw ''take_profit_price'' VNone,
          slippage = kwarg kw ''slippage'' VNone,
          network = kwarg kw ''network'' VNone,
          contract_address = kwarg kw ''contract_address'' VNone,
          dex_id = kwarg kw ''dex_id'' VNone,
          reduce_only = kwarg kw ''reduce_only'' (VBool False),
          message = kwarg kw ''message'' VNone,
          source = kwarg kw ''source'' VNone,
          strategy_name = kwarg kw ''strategy_name'' VNone,
          timeframe = kwarg kw ''timeframe'' VNone,
          exchange = kwarg kw ''exchange'' VNone \<rparr>)"

subsection \<open>\<^verbatim>\<open>to_dict\<close>\<close>

text \<open>The second loop of \<^verbatim>\<open>to_dict\<close>: an enum member becomes its value, a datetime its ISO
  text with \<^verbatim>\<open>Z\<close> appended, a decimal its string; every other value is kept.\<close>

fun render :: "pyval \<Rightarrow> pyval" where
  "render (VSignalType x) = VStr (SignalType_value x)"
| "render (VTradeType x) = VStr (TradeType_value x)"
| "render (VSide x) = VStr (Side_value x)"
| "render (VOrderType x) = VStr (OrderType_value x)"
| "render (VDatetime dt) = VStr (isoformat dt @ ''Z'')"
| "render (VDecimal d) = VStr (Decimal_str d)"
| "render v = v"

definition to_dict :: "TradingSignal \<Rightarrow> pydict" where
  "to_dict s = map (\<lambda>(field, v). (field, render v)) (filter (\<lambda>(field, v). v \<noteq> VNone) (fields s))"

subsection \<open>\<^verbatim>\<open>from_dict\<close>\<close>

datatype enum_class = SignalType_class | TradeType_class | Side_class | OrderType_class

definition enum_fields :: "(string \<times> enum_class) list" where
  "enum_fields =
     [(''type'', SignalType_class), (''trade_type'', TradeType_class), (''side'', Side_class),
      (''order_type'', OrderType_class)]"

text \<open>\<^verbatim>\<open>enum_class[v]\<close>: only the name of a member is a key.\<close>

fun enum_getitem :: "enum_class \<Rightarrow> pyval \<Rightarrow> error + pyval" where
  "enum_getitem SignalType_class (VStr n) =
     (case SignalType_getitem n of None \<Rightarrow> Inl (KeyError (VStr n)) | Some x \<Rightarrow> Inr (VSignalType x))"
| "enum_getitem TradeType_class (VStr n) =
     (case TradeType_getitem n of None \<Rightarrow> Inl (KeyError (VStr n)) | Some x \<Rightarrow> Inr (VTradeType x))"
| "enum_getitem Side_class (VStr n) =
     (case Side_getitem n of None \<Rightarrow> Inl (KeyError (VStr n)) | Some x \<Rightarrow> Inr (VSide x))"
| "enum_getitem OrderType_class (VStr n) =
     (case OrderType_getitem n of None \<Rightarrow> Inl (KeyError (VStr n)) | Some x \<Rightarrow> Inr (VOrderType x))"
| "enum_getitem c v = Inl (KeyError v)"

text \<open>The first loop of \<^verbatim>\<open>from_dict\<close>. It assigns into the caller's dictionary, so the
  dictionary is threaded through and returned, also when a lookup raises.\<close>

fun convert_enums :: "(string \<times> enum_class) list \<Rightarrow> pydict \<Rightarrow> error option \<times> pydict" where
  "convert_enums [] data = (None, data)"
| "convert_enums ((field, c) # rest) data =
     (case map_of data field of
        None \<Rightarrow> convert_enums rest data
      | Some v \<Rightarrow>
          (case enum_getitem c v of
             Inl e \<Rightarrow> (Some e, data)
           | Inr m \<Rightarrow> convert_enums rest (AList.update field m data)))"

definition decimal_fields :: "string list" where
  "decimal_fields =
     [''amount_capital_percent'', ''fixed_size'', ''leverage'', ''limit_price'', ''stop_price'',
      ''take_profit_price'', ''slippage'']"

text \<open>The second loop: \<^verbatim>\<open>Decimal(str(data[field]))\<close> for every decimal field that is present
  and not \<^verbatim>\<open>None\<close>.\<close>

fun convert_decimals :: "string list \<Rightarrow> pydict \<Rightarrow> error option \<times> pydict" where
  "convert_decimals [] data = (None, data)"
| "convert_decimals (field # rest) data =
     (case map_of data field of
        None \<Rightarrow> convert_decimals rest data
      | Some v \<Rightarrow>
          if v = VNone then convert_decimals rest data
          else (case Decimal_of_str (py_str v) of
                  None \<Rightarrow> (Some InvalidOperation, data)
                | Some d \<Rightarrow> convert_decimals rest (AList.update field (VDecimal d) data)))"

text \<open>\<^verbatim>\<open>TradingSignal.from_dict(data)\<close> returns the record or the exception, together with
  the caller's dictionary as the call leaves it. It is a method of the class: when the class
  statement has raised there is no method to call, the exception of the class statement is
  all the caller gets, and the dictionary has not been touched.\<close>

definition from_dict :: "pydict \<Rightarrow> (error + TradingSignal) \<times> pydict" where
  "from_dict data =
     (case class_statement of
        Inl e \<Rightarrow> (Inl e, data)
      | Inr c \<Rightarrow>
          (case convert_enums enum_fields data of
             (Some e, data1) \<Rightarrow> (Inl e, data1)
           | (None, data1) \<Rightarrow>
               (case convert_decimals decimal_fields data1 of
                  (Some e, data2) \<Rightarrow> (Inl e, data2)
                | (None, data2) \<Rightarrow> (TradingSignal_init data2, data2))))"

text \<open>Decoding followed by encoding, as a caller composes them.\<close>

definition encode_decoded :: "pydict \<Rightarrow> error + pydict" where
  "encode_decoded m = (case fst (from_dict m) of Inl e \<Rightarrow> Inl e | Inr s \<Rightarrow> Inr (to_dict s))"

text \<open>The example of the module's \<^verbatim>\<open>__main__\<close> section.\<close>

definition signal_dict :: pydict where
  "signal_dict =
     [(''signal_id'', VStr ''123e4567-e89b-12d3-a456-426614174000''),
      (''timestamp'', VStr ''2024-02-19T12:00:00Z''),
      (''type'', VStr ''TRADE''),
      (''trade_type'', VStr ''PERP''),
      (''symbol'', VStr ''ETH-USDT''),
      (''side'', VStr ''BUY''),
      (''order_type'', VStr ''LIMIT''),
      (''amount_capital_percent'', VStr ''10.0''),
      (''fixed_size'', VStr ''1.5''),
      (''leverage'', VStr ''10.0''),
      (''limit_price'', VStr ''2000.0''),
      (''message'', VStr ''ETH breakout trade'')]"

subsection \<open>The percent interval of the specification, and the examples\<close>

text \<open>The number a finite decimal stands for.\<close>

definition finite_value :: "bool \<Rightarrow> nat \<Rightarrow> int \<Rightarrow> real" where
  "finite_value neg c e =
     (if neg then - real c else real c) * (if e \<ge> 0 then 10 ^ nat e else 1 / 10 ^ nat (- e))"

text \<open>Invariant 1, \<open>0 < amount_capital_percent \<le> 100\<close>, for a decimal. An infinity and a
  NaN are outside the interval.\<close>

fun percent_in_interval :: "Decimal \<Rightarrow> bool" where
  "percent_in_interval (Finite neg c e) = (0 < finite_value neg c e \<and> finite_value neg c e \<le> 100)"
| "percent_in_interval d = False"

text \<open>A record for the examples: the module's example with a datetime as timestamp.\<close>

definition example_signal :: TradingSignal where
  "example_signal =
     \<lparr> signal_id = VStr ''123e4567-e89b-12d3-a456-426614174000'',
       timestamp = VDatetime \<lparr> year = 2024, month = 2, day = 19, hour = 12, minute = 0,
                               second = 0, microsecond = 0, utcoffset = None \<rparr>,
       type = VSignalType TRADE,
       trade_type = VTradeType PERP,
       symbol = VStr ''ETH-USDT'',
       side = VSide BUY,
       order_type = VOrderType LIMIT,
       amount_capital_percent = VDecimal (Finite False 100 (- 1)),
       fixed_size = VDecimal (Finite False 15 (- 1)),
       leverage = VDecimal (Finite False 100 (- 1)),
       limit_price = VDecimal (Finite False 20000 (- 1)),
       stop_price = VNone,
       take_profit_price = VNone,
       slippage = VNone,
       network = VNone,
       contract_address = VNone,
       dex_id = VNone,
       reduce_only = VBool False,
       message = VStr ''ETH breakout trade'',
       source = VNone,
       strategy_name = VNone,
       timeframe = VNone,
       exchange = VNone \<rparr>"

text \<open>The example with an unknown tag in \<^verbatim>\<open>order_type\<close>.\<close>

definition bogus_order_type_dict :: pydict where
  "bogus_order_type_dict = AList.update ''order_type'' (VStr ''BOGUS'') signal_dict"

section \<open>The class statement\<close>

lemma class_statement_raises: "class_statement = Inl TypeError"
  by (simp add: class_statement_def field_decls_def)

lemma TradingSignal_new_raises: "TradingSignal_new s = Inl TypeError"
  by (simp add: TradingSignal_new_def class_statement_raises)

lemma TradingSignal_init_raises: "TradingSignal_init kw = Inl TypeError"
  by (simp add: TradingSignal_init_def class_statement_raises)

lemma from_dict_raises: "from_dict m = (Inl TypeError, m)"
  by (simp add: from_dict_def class_statement_raises)

section \<open>Construction\<close>

text \<open>What \<^verbatim>\<open>__post_init__\<close>, as it is written, decides on the examples. It is never
  reached: the class it belongs to is not created.\<close>

lemmas validation_defs = post_init_def percent_in_range_def cmp_int_def example_signal_def

lemma post_init_examples:
  "post_init example_signal = Inr ()"
  "post_init (example_signal\<lparr>amount_capital_percent := VDecimal (Finite False 100 0)\<rparr>) = Inr ()"
  "post_init (example_signal\<lparr>trade_type := VTradeType EVM,
      contract_address := VStr ''0xabc''\<rparr>) = Inr ()"
  "post_init (example_signal\<lparr>amount_capital_percent := VDecimal (NaN False False 0)\<rparr>)
     = Inl InvalidOperation"
  "post_init (example_signal\<lparr>trade_type := VTradeType EVM\<rparr>)
     = Inl (ValueError ''contract_address is required for EVM trades'')"
  "post_init (example_signal\<lparr>limit_price := VNone\<rparr>)
     = Inl (ValueError ''limit_price is required for LIMIT and POST_ONLY orders'')"
  by (simp_all add: validation_defs)

text \<open>
  Claim C3 does not hold of the code. The example record satisfies invariants 1 to 5: its
  percent is \<open>10.0\<close>, its trade type is PERP, its order type is LIMIT and it has a limit
  price; \<^verbatim>\<open>__post_init__\<close> as written accepts it. Constructing it raises the
  \<^verbatim>\<open>TypeError\<close> of the class statement: no record is produced.
\<close>

theorem construction_raises:
  "amount_capital_percent example_signal = VDecimal (Finite False 100 (- 1)) \<and>
   percent_in_interval (Finite False 100 (- 1)) \<and>
   trade_type example_signal = VTradeType PERP \<and>
   order_type example_signal = VOrderType LIMIT \<and>
   limit_price example_signal = VDecimal (Finite False 20000 (- 1)) \<and>
   post_init example_signal = Inr () \<and>
   class_statement = Inl TypeError \<and>
   TradingSignal_new example_signal = Inl TypeError"
  by (simp add: TradingSignal_new_raises class_statement_raises post_init_examples)
     (simp add: example_signal_def finite_value_def)

text \<open>
  Claim C4 does not hold of the code. With the percent \<open>100\<close>, inside the interval, and
  all other invariants satisfied, construction does not succeed: it raises the
  \<^verbatim>\<open>TypeError\<close> of the class statement. With the percents \<open>0\<close> and \<open>100.01\<close>, outside
  the interval, construction fails with that same \<^verbatim>\<open>TypeError\<close> and not with the percent
  failure.
\<close>

theorem percent_examples_raise:
  "percent_in_interval (Finite False 100 0) \<and>
   post_init (example_signal\<lparr>amount_capital_percent := VDecimal (Finite False 100 0)\<rparr>) = Inr () \<and>
   TradingSignal_new (example_signal\<lparr>amount_capital_percent := VDecimal (Finite False 100 0)\<rparr>)
     = Inl TypeError \<and>
   \<not> percent_in_interval (Finite False 0 0) \<and>
   TradingSignal_new (example_signal\<lparr>amount_capital_percent := VDecimal (Finite False 0 0)\<rparr>)
     = Inl TypeError \<and>
   \<not> percent_in_interval (Finite False 10001 (- 2)) \<and>
   TradingSignal_new (example_signal\<lparr>amount_capital_percent := VDecimal (Finite False 10001 (- 2))\<rparr>)
     = Inl TypeError"
  by (simp add: TradingSignal_new_raises post_init_examples) (simp add: finite_value_def)

text \<open>
  Claim C5 does not hold of the code. An EVM construction with a valid percent and no contract
  address fails with the \<^verbatim>\<open>TypeError\<close> of the class statement, not with the
  contract-address failure, and the same construction with the contract address
  \<^verbatim>\<open>"0xabc"\<close>, which \<^verbatim>\<open>__post_init__\<close> as written accepts, fails in the same way instead of
  succeeding.
\<close>

theorem contract_address_examples_raise:
  "trade_type (example_signal\<lparr>trade_type := VTradeType EVM\<rparr>) = VTradeType EVM \<and>
   contract_address (example_signal\<lparr>trade_type := VTradeType EVM\<rparr>) = VNone \<and>
   TradingSignal_new (example_signal\<lparr>trade_type := VTradeType EVM\<rparr>) = Inl TypeError \<and>
   post_init (example_signal\<lparr>trade_type := VTradeType EVM,
      contract_address := VStr ''0xabc''\<rparr>) = Inr () \<and>
   TradingSignal_new (example_signal\<lparr>trade_type := VTradeType EVM,
      contract_address := VStr ''0xabc''\<rparr>) = Inl TypeError"
  by (simp add: TradingSignal_new_raises post_init_examples) (simp add: example_signal_def)


section \<open>Encoding\<close>

subsection \<open>What \<^verbatim>\<open>to_dict\<close> holds at a key\<close>

lemma map_of_map_filter:
  "distinct (map fst al) \<Longrightarrow>
   map_of (map (\<lambda>(f, v). (f, g v)) (filter (\<lambda>(f, v). P v) al)) k =
     (case map_of al k of None \<Rightarrow> None | Some v \<Rightarrow> if P v then Some (g v) else None)"
proof (induction al)
  case Nil
  then show ?case by simp
next
  case (Cons p al)
  obtain a b where p: "p = (a, b)" by (cases p)
  have notin: "a \<notin> fst ` set al" using Cons.prems p by auto
  have none: "map_of (map (\<lambda>(f, v). (f, g v)) (filter (\<lambda>(f, v). P v) al)) a = None"
    using notin by (auto simp: map_of_eq_None_iff image_iff)
  show ?case
  proof (cases "k = a")
    case True
    then show ?thesis using p none by simp
  next
    case False
    then show ?thesis using p Cons by simp
  qed
qed

lemma distinct_fields: "distinct (map fst (fields s))"
  by (simp add: fields_def)

lemma map_of_to_dict:
  "map_of (to_dict s) k =
     (case map_of (fields s) k of None \<Rightarrow> None | Some v \<Rightarrow> if v \<noteq> VNone then Some (render v) else None)"
  unfolding to_dict_def by (rule map_of_map_filter [OF distinct_fields])

lemma render_eq_VNone: "render v = VNone \<longleftrightarrow> v = VNone"
  by (cases v) simp_all

lemma keys_to_dict:
  "k \<in> fst ` set (to_dict s) \<longleftrightarrow> (\<exists>v. map_of (fields s) k = Some v \<and> v \<noteq> VNone)"
proof -
  have "k \<in> fst ` set (to_dict s) \<longleftrightarrow> map_of (to_dict s) k \<noteq> None"
    by (simp add: map_of_eq_None_iff)
  then show ?thesis by (auto simp: map_of_to_dict split: option.splits)
qed

lemma values_to_dict: "VNone \<notin> snd ` set (to_dict s)"
proof
  assume "VNone \<in> snd ` set (to_dict s)"
  then obtain k v where "(k, v) \<in> set (fields s)" "v \<noteq> VNone" "render v = VNone"
    by (auto simp: to_dict_def)
  then show False by (simp add: render_eq_VNone)
qed

text \<open>
  Claim C8. The dictionary produced by \<^verbatim>\<open>to_dict\<close> has no key for any field whose value is
  \<^verbatim>\<open>None\<close> and no entry whose value is \<^verbatim>\<open>None\<close>; in particular a record without
  \<^verbatim>\<open>fixed_size\<close> is encoded without the key \<^verbatim>\<open>fixed_size\<close>.
\<close>

theorem to_dict_omits_absent:
  "(\<forall>k. map_of (fields s) k = Some VNone \<longrightarrow> k \<notin> fst ` set (to_dict s))
   \<and> VNone \<notin> snd ` set (to_dict s)
   \<and> (fixed_size s = VNone \<longrightarrow> ''fixed_size'' \<notin> fst ` set (to_dict s))"
proof (intro conjI allI impI)
  fix k assume "map_of (fields s) k = Some VNone"
  then show "k \<notin> fst ` set (to_dict s)" by (simp add: keys_to_dict)
next
  show "VNone \<notin> snd ` set (to_dict s)" by (rule values_to_dict)
next
  assume "fixed_size s = VNone"
  then have "map_of (fields s) ''fixed_size'' = Some VNone" by (simp add: fields_def)
  then show "''fixed_size'' \<notin> fst ` set (to_dict s)" by (simp add: keys_to_dict)
qed

theorem to_dict_omits_absent_witness:
  "fixed_size (example_signal\<lparr>fixed_size := VNone\<rparr>) = VNone \<and>
   map_of (fields (example_signal\<lparr>fixed_size := VNone\<rparr>)) ''fixed_size'' = Some VNone \<and>
   ''fixed_size'' \<notin> fst ` set (to_dict (example_signal\<lparr>fixed_size := VNone\<rparr>))"
  using to_dict_omits_absent [of "example_signal\<lparr>fixed_size := VNone\<rparr>"]
  by (simp add: fields_def)

subsection \<open>The key \<^verbatim>\<open>reduce_only\<close>\<close>




section \<open>Decoding\<close>

subsection \<open>The conversion loops of \<^verbatim>\<open>from_dict\<close> as they are written\<close>

text \<open>The decimal constructor on texts of the example and at the exponent limit.\<close>

lemmas parse_defs = Decimal_of_str_def strip_def is_space_def split_sign_def lower_def
  parse_number_def parse_exp_def parse_nan_def is_digit_def int_of_digits_def digit_val_def
  within_limits_def MAX_PREC_def MAX_EMAX_def MIN_ETINY_def str_nat.simps Let_def

lemma Decimal_of_str_examples:
  "Decimal_of_str ''10.0'' = Some (Finite False 100 (- 1))"
  "Decimal_of_str ''1E999999999999999999'' = Some (Finite False 1 999999999999999999)"
  "Decimal_of_str ''1E1000000000000000000'' = None"
  by (simp_all add: parse_defs)

text \<open>The first loop on the module's example, and on the example with an unknown tag in
  \<^verbatim>\<open>order_type\<close>: run on a dictionary, it assigns the members into that dictionary, and
  it stops at the unknown tag with the \<^verbatim>\<open>KeyError\<close> of the lookup.\<close>

lemma convert_enums_signal_dict:
  "convert_enums enum_fields signal_dict =
     (None, [(''signal_id'', VStr ''123e4567-e89b-12d3-a456-426614174000''),
      (''timestamp'', VStr ''2024-02-19T12:00:00Z''),
      (''type'', VSignalType TRADE),
      (''trade_type'', VTradeType PERP),
      (''symbol'', VStr ''ETH-USDT''),
      (''side'', VSide BUY),
      (''order_type'', VOrderType LIMIT),
      (''amount_capital_percent'', VStr ''10.0''),
      (''fixed_size'', VStr ''1.5''),
      (''leverage'', VStr ''10.0''),
      (''limit_price'', VStr ''2000.0''),
      (''message'', VStr ''ETH breakout trade'')])"
  by (simp add: enum_fields_def signal_dict_def SignalType_getitem_def TradeType_getitem_def
      Side_getitem_def OrderType_getitem_def)

lemma convert_enums_bogus_order_type:
  "fst (convert_enums enum_fields bogus_order_type_dict) = Some (KeyError (VStr ''BOGUS''))"
  by (simp add: bogus_order_type_dict_def signal_dict_def enum_fields_def SignalType_getitem_def
      TradeType_getitem_def Side_getitem_def OrderType_getitem_def)

subsection \<open>\<^verbatim>\<open>from_dict\<close> as the module provides it\<close>


text \<open>
  Claim C7 does not hold of the code. Decoding the example with the unknown tag
  \<^verbatim>\<open>"BOGUS"\<close> in \<^verbatim>\<open>order_type\<close> fails with the \<^verbatim>\<open>TypeError\<close> of the class statement, which
  names neither the field nor the value. The lookup loop, were it reached, would raise
  \<^verbatim>\<open>KeyError('BOGUS')\<close>, which names the value only.
\<close>

theorem unknown_tag_raises_TypeError:
  "map_of bogus_order_type_dict ''order_type'' = Some (VStr ''BOGUS'') \<and>
   fst (from_dict bogus_order_type_dict) = Inl TypeError \<and>
   fst (convert_enums enum_fields bogus_order_type_dict) = Some (KeyError (VStr ''BOGUS''))"
  by (simp add: from_dict_raises convert_enums_bogus_order_type)
     (simp add: bogus_order_type_dict_def signal_dict_def)

text \<open>
  Claim C2 does not hold of the code. The module's own example is an interchange map with
  distinct keys and every required field present; decoding it raises the \<^verbatim>\<open>TypeError\<close> of
  the class statement, so there is no decoded record to encode and no map comes back.
\<close>

theorem decode_encode_raises:
  "distinct (map fst signal_dict) \<and>
   list_all (\<lambda>k. map_of signal_dict k \<noteq> None) required_fields \<and>
   fst (from_dict signal_dict) = Inl TypeError \<and>
   encode_decoded signal_dict = Inl TypeError"
  by (simp add: encode_decoded_def from_dict_raises) (simp add: signal_dict_def required_fields_def)


end
